theory Spec2Isabelle
  imports Complex_Main
begin

section \<open>Data model\<close>

text \<open>
  The two dataclasses of \<^verbatim>\<open>invoice_service.py\<close> become records. Python's \<^verbatim>\<open>int\<close> is
  unbounded and is modelled by \<^typ>\<open>int\<close>. Python's \<^verbatim>\<open>float\<close> is modelled by \<^typ>\<open>real\<close>:
  the arithmetic of the model is exact. Rounding, infinities and NaN of IEEE 754 doubles
  are not represented, nor is the \<^verbatim>\<open>OverflowError\<close> of multiplying a float by an
  integer too large for a double. Strings are lists of \<^typ>\<open>char\<close>, read as code points
  below 256.
\<close>

record LineItem =
  sku :: string
  category :: string
  unit_price :: real
  qty :: int
  fragile :: bool

record Invoice =
  invoice_id :: string
  customer_id :: string
  country :: string
  membership :: string
  coupon :: "string option"
  items :: "LineItem list"

text \<open>
  The service object has one attribute, the coupon-rate dictionary, set by
  \<^verbatim>\<open>__init__\<close>. Every method takes the object as its first argument, as \<^verbatim>\<open>self\<close>.
\<close>

record InvoiceService =
  coupon_rate :: "string \<rightharpoonup> real"

definition InvoiceService_init :: InvoiceService where
  "InvoiceService_init =
     \<lparr>coupon_rate = map_of [(''WELCOME10'', 0.10), (''VIP20'', 0.20), (''STUDENT5'', 0.05)]\<rparr>"

text \<open>The only exception the module raises is \<^verbatim>\<open>ValueError\<close>, carrying its message.\<close>

datatype error = ValueError string

section \<open>String helpers of the Python runtime\<close>

text \<open>\<^verbatim>\<open>sep.join(xs)\<close>: the elements of \<open>xs\<close> with \<open>sep\<close> between neighbours.\<close>

fun join :: "string \<Rightarrow> string list \<Rightarrow> string" where
  "join sep [] = []"
| "join sep [x] = x"
| "join sep (x # y # ys) = x @ sep @ join sep (y # ys)"

text \<open>
  \<^verbatim>\<open>str.isspace\<close> on one character with code point below 256: tab, line feed, vertical
  tab, form feed, carriage return, the four separators 0x1C to 0x1F, space, next line
  (0x85) and no-break space (0xA0).
\<close>

definition is_space :: "char \<Rightarrow> bool" where
  "is_space c \<longleftrightarrow>
     c \<in> set [CHR 0x09, CHR 0x0A, CHR 0x0B, CHR 0x0C, CHR 0x0D,
              CHR 0x1C, CHR 0x1D, CHR 0x1E, CHR 0x1F, CHR 0x20, CHR 0x85, CHR 0xA0]"

text \<open>\<^verbatim>\<open>str.strip()\<close> without argument removes whitespace at both ends.\<close>

definition strip :: "string \<Rightarrow> string" where
  "strip s = rev (dropWhile is_space (rev (dropWhile is_space s)))"

section \<open>The service\<close>

subsection \<open>Validation\<close>

text \<open>
  The \<^verbatim>\<open>for\<close> loop of \<^verbatim>\<open>_validate\<close>, with the list \<open>problems\<close> it appends to as an
  accumulator. The four checks of the body run in the order of the source and none of
  them leaves the loop.
\<close>

fun validate_loop :: "LineItem list \<Rightarrow> string list \<Rightarrow> string list" where
  "validate_loop [] problems = problems"
| "validate_loop (it # its) problems =
     (let problems = (if sku it = [] then problems @ [''Item sku is missing'']
                      else problems);
          problems = (if qty it \<le> 0 then problems @ [''Invalid qty for '' @ sku it]
                      else problems);
          problems = (if unit_price it < 0 then problems @ [''Invalid price for '' @ sku it]
                      else problems);
          problems = (if category it \<notin> set [''book'', ''food'', ''electronics'', ''other'']
                      then problems @ [''Unknown category for '' @ sku it]
                      else problems)
      in validate_loop its problems)"

text \<open>
  \<^verbatim>\<open>_validate\<close>. The argument is optional because the source tests \<^verbatim>\<open>inv is None\<close>
  and returns at once in that case.
\<close>

definition validate :: "Invoice option \<Rightarrow> string list" where
  "validate invc =
     (case invc of
        None \<Rightarrow> [''Invoice is missing'']
      | Some i \<Rightarrow>
          (let problems = [];
               problems = (if invoice_id i = [] then problems @ [''Missing invoice_id'']
                           else problems);
               problems = (if customer_id i = [] then problems @ [''Missing customer_id'']
                           else problems);
               problems = (if items i = [] then problems @ [''Invoice must contain items'']
                           else problems)
           in validate_loop (items i) problems))"

subsection \<open>Pricing\<close>

text \<open>
  The loop of \<^verbatim>\<open>_compute_subtotal_and_fragile_fee\<close> with its two running sums, and the
  method, which starts both at zero.
\<close>

fun subtotal_loop :: "LineItem list \<Rightarrow> real \<Rightarrow> real \<Rightarrow> real \<times> real" where
  "subtotal_loop [] subtotal fragile_fee = (subtotal, fragile_fee)"
| "subtotal_loop (it # its) subtotal fragile_fee =
     subtotal_loop its
       (subtotal + unit_price it * of_int (qty it))
       (if fragile it then fragile_fee + 5.0 * of_int (qty it) else fragile_fee)"

definition compute_subtotal_and_fragile_fee :: "LineItem list \<Rightarrow> real \<times> real" where
  "compute_subtotal_and_fragile_fee its = subtotal_loop its 0.0 0.0"

definition compute_shipping :: "string \<Rightarrow> real \<Rightarrow> real" where
  "compute_shipping cntry subtotal =
     (if cntry = ''TH'' then (if subtotal < 500 then 60 else 0)
      else if cntry = ''JP'' then (if subtotal < 4000 then 600 else 0)
      else if cntry = ''US'' then
        (if subtotal < 100 then 15
         else if subtotal < 300 then 8
         else 0)
      else (if subtotal < 200 then 25 else 0))"

definition compute_membership_discount :: "string \<Rightarrow> real \<Rightarrow> real" where
  "compute_membership_discount mem subtotal =
     (if mem = ''gold'' then subtotal * 0.03
      else if mem = ''platinum'' then subtotal * 0.05
      else (if subtotal > 3000 then 20 else 0.0))"

text \<open>
  \<^verbatim>\<open>_apply_coupon\<close> appends to the list \<open>warnings\<close> of its caller; the model returns
  the list next to the discount.
\<close>

definition apply_coupon ::
  "InvoiceService \<Rightarrow> string option \<Rightarrow> real \<Rightarrow> string list \<Rightarrow> real \<times> string list" where
  "apply_coupon self cpn subtotal warnings =
     (case cpn of
        None \<Rightarrow> (0.0, warnings)
      | Some c \<Rightarrow>
          if strip c = [] then (0.0, warnings)
          else
            (let code = strip c in
             case coupon_rate self code of
               Some rate \<Rightarrow> (subtotal * rate, warnings)
             | None \<Rightarrow> (0.0, warnings @ [''Unknown coupon''])))"

definition compute_tax :: "string \<Rightarrow> real \<Rightarrow> real \<Rightarrow> real" where
  "compute_tax cntry subtotal discount =
     (let base = subtotal - discount;
          rate = (if cntry = ''TH'' then 0.07
                  else if cntry = ''JP'' then 0.10
                  else if cntry = ''US'' then 0.08
                  else 0.05)
      in base * rate)"

text \<open>
  \<^verbatim>\<open>compute_total\<close>. Raising \<^verbatim>\<open>ValueError\<close> is the result \<open>Inl\<close>; the pair of total and
  warnings is \<open>Inr\<close>. For an absent invoice the list of problems is never empty, so the
  source raises before it reads a field.
\<close>

definition compute_total ::
  "InvoiceService \<Rightarrow> Invoice option \<Rightarrow> error + real \<times> string list" where
  "compute_total self invc =
     (let warnings = [];
          problems = validate invc
      in if problems \<noteq> [] then Inl (ValueError (join ''; '' problems))
         else
           (case invc of
              None \<Rightarrow> Inl (ValueError (join ''; '' problems))
            | Some i \<Rightarrow>
                (let (subtotal, fragile_fee) = compute_subtotal_and_fragile_fee (items i);
                     shipping = compute_shipping (country i) subtotal;
                     discount = compute_membership_discount (membership i) subtotal;
                     (coupon_discount, warnings) =
                        apply_coupon self (coupon i) subtotal warnings;
                     discount = discount + coupon_discount;
                     tax = compute_tax (country i) subtotal discount;
                     total = subtotal + shipping + fragile_fee + tax - discount;
                     total = (if total < 0 then 0 else total);
                     warnings =
                       (if subtotal > 10000 \<and> membership i \<notin> set [''gold'', ''platinum'']
                        then warnings @ [''Consider membership upgrade'']
                        else warnings)
                 in Inr (total, warnings))))"

section \<open>The rules in the words of the specification\<close>

text \<open>
  The problems of one line item and of an invoice as the specification lists them: one
  optional entry per check, in check order, the items in sequence order.
\<close>

definition spec_item_problems :: "LineItem \<Rightarrow> string list" where
  "spec_item_problems it =
     (if sku it = [] then [''Item sku is missing''] else [])
     @ (if qty it \<le> 0 then [''Invalid qty for '' @ sku it] else [])
     @ (if unit_price it < 0 then [''Invalid price for '' @ sku it] else [])
     @ (if category it \<notin> {''book'', ''food'', ''electronics'', ''other''}
        then [''Unknown category for '' @ sku it] else [])"

definition spec_problems :: "Invoice \<Rightarrow> string list" where
  "spec_problems i =
     (if invoice_id i = [] then [''Missing invoice_id''] else [])
     @ (if customer_id i = [] then [''Missing customer_id''] else [])
     @ (if items i = [] then [''Invoice must contain items''] else [])
     @ concat (map spec_item_problems (items i))"

text \<open>
  The subtotal is the sum over the items of unit price times quantity; the fragile fee is
  the sum over the fragile items of 5 times quantity.
\<close>

definition spec_subtotal :: "LineItem list \<Rightarrow> real" where
  "spec_subtotal its = (\<Sum>it\<leftarrow>its. unit_price it * of_int (qty it))"

definition spec_fragile_fee :: "LineItem list \<Rightarrow> real" where
  "spec_fragile_fee its = (\<Sum>it\<leftarrow>filter fragile its. 5 * of_int (qty it))"

text \<open>
  The value of the variable \<open>discount\<close> of \<^verbatim>\<open>compute_total\<close> after the coupon has been
  applied, and the value of \<open>total\<close> before the test \<^verbatim>\<open>total < 0\<close>, both computed by the
  calls the method makes.
\<close>

definition total_discount :: "InvoiceService \<Rightarrow> Invoice \<Rightarrow> real" where
  "total_discount self i =
     (let (subtotal, fragile_fee) = compute_subtotal_and_fragile_fee (items i)
      in compute_membership_discount (membership i) subtotal
         + fst (apply_coupon self (coupon i) subtotal []))"

definition gross_total :: "InvoiceService \<Rightarrow> Invoice \<Rightarrow> real" where
  "gross_total self i =
     (let (subtotal, fragile_fee) = compute_subtotal_and_fragile_fee (items i);
          shipping = compute_shipping (country i) subtotal;
          discount = total_discount self i;
          tax = compute_tax (country i) subtotal discount
      in subtotal + shipping + fragile_fee + tax - discount)"


section \<open>Auxiliary facts\<close>

subsection \<open>Trimming\<close>

lemma dropWhile_all_Nil: "(\<forall>x\<in>set (dropWhile P xs). P x) \<longleftrightarrow> dropWhile P xs = []"
proof
  assume a: "\<forall>x\<in>set (dropWhile P xs). P x"
  show "dropWhile P xs = []"
  proof (rule ccontr)
    assume n: "dropWhile P xs \<noteq> []"
    then have "\<not> P (hd (dropWhile P xs))" by (rule hd_dropWhile)
    moreover have "hd (dropWhile P xs) \<in> set (dropWhile P xs)" using n by simp
    ultimately show False using a by blast
  qed
qed (auto dest: set_dropWhileD)

lemma strip_Nil_iff: "strip s = [] \<longleftrightarrow> (\<forall>x\<in>set s. is_space x)"
  by (simp add: strip_def dropWhile_all_Nil)

lemma strip_surrounded:
  assumes l: "\<forall>x\<in>set l. is_space x" and r: "\<forall>x\<in>set r. is_space x"
    and c: "code \<noteq> []" and h: "\<not> is_space (hd code)" and t: "\<not> is_space (last code)"
  shows "strip (l @ code @ r) = code"
proof -
  have 1: "dropWhile is_space (l @ code @ r) = code @ r"
    using l c h by (cases code) (simp_all add: dropWhile_append)
  have 2: "dropWhile is_space (rev r @ rev code) = rev code"
    using r c t by (cases code rule: rev_cases) (simp_all add: dropWhile_append)
  show ?thesis by (simp add: strip_def 1 2)
qed

lemma strip_fixed_hd:
  assumes "strip code = code" and "code \<noteq> []"
  shows "\<not> is_space (hd code)"
proof
  assume "is_space (hd code)"
  then have "length (dropWhile is_space code) < length code"
    using assms(2) by (cases code) (simp_all add: le_imp_less_Suc length_dropWhile_le)
  moreover have "length (strip code) \<le> length (dropWhile is_space code)"
    by (simp add: strip_def) (metis length_dropWhile_le length_rev)
  ultimately show False using assms(1) by simp
qed

lemma strip_fixed_last:
  assumes "strip code = code" and "code \<noteq> []"
  shows "\<not> is_space (last code)"
proof -
  define u where "u = dropWhile is_space (rev (dropWhile is_space code))"
  have u: "u = rev code"
    using assms(1) unfolding strip_def u_def [symmetric] by (metis rev_rev_ident)
  then have "u \<noteq> []" using assms(2) by simp
  then have "\<not> is_space (hd u)" unfolding u_def by (rule hd_dropWhile)
  then show ?thesis using u assms(2) by (simp add: hd_rev)
qed

subsection \<open>The loops and the two outcomes of \<^verbatim>\<open>compute_total\<close>\<close>

lemma validate_loop_append:
  "validate_loop its ps = ps @ concat (map spec_item_problems its)"
  by (induction its arbitrary: ps) (simp_all add: spec_item_problems_def Let_def)

lemma validate_Some: "validate (Some i) = spec_problems i"
  by (simp add: validate_def spec_problems_def Let_def validate_loop_append)

lemma subtotal_loop_sums:
  "subtotal_loop its a b = (a + spec_subtotal its, b + spec_fragile_fee its)"
  by (induction its arbitrary: a b) (simp_all add: spec_subtotal_def spec_fragile_fee_def)

lemma compute_subtotal_and_fragile_fee_sums:
  "compute_subtotal_and_fragile_fee its = (spec_subtotal its, spec_fragile_fee its)"
  by (simp add: compute_subtotal_and_fragile_fee_def subtotal_loop_sums)




lemma compute_total_valid:
  assumes "validate (Some i) = []"
  shows "compute_total svc (Some i) =
    Inr (if gross_total svc i < 0 then 0 else gross_total svc i,
         snd (apply_coupon svc (coupon i) (spec_subtotal (items i)) [])
         @ (if spec_subtotal (items i) > 10000 \<and> membership i \<notin> {''gold'', ''platinum''}
            then [''Consider membership upgrade''] else []))"
  using assms
  by (simp add: compute_total_def gross_total_def total_discount_def Let_def
      compute_subtotal_and_fragile_fee_sums split: prod.splits)

lemma compute_total_invalid:
  "validate invc \<noteq> [] \<Longrightarrow> compute_total svc invc = Inl (ValueError (join ''; '' (validate invc)))"
  by (simp add: compute_total_def Let_def)

subsection \<open>Bounds and monotonicity of the parts\<close>













subsection \<open>Unfolding for concrete invoices\<close>


section \<open>Properties of the pricing rules\<close>

subsection \<open>Shipping\<close>

text \<open>
  Claim C3. For every country string and subtotal the shipping fee is the one of the
  table: TH gives 60 below 500 and 0 from 500 on; JP gives 600 below 4000 and 0 from 4000
  on; US gives 15 below 100, 8 from 100 and below 300, 0 from 300 on; every country
  other than TH, JP and US gives 25 below 200 and 0 from 200 on. Each upper bound is
  exclusive.
\<close>

theorem compute_shipping_table:
  "compute_shipping ''TH'' s = (if s < 500 then 60 else 0)
   \<and> compute_shipping ''JP'' s = (if s < 4000 then 600 else 0)
   \<and> compute_shipping ''US'' s = (if s < 100 then 15 else if s < 300 then 8 else 0)
   \<and> (c \<notin> {''TH'', ''JP'', ''US''} \<longrightarrow>
        compute_shipping c s = (if s < 200 then 25 else 0))"
  by (simp add: compute_shipping_def)

theorem compute_shipping_table_witness:
  "''FR'' \<notin> {''TH'', ''JP'', ''US''}
   \<and> compute_shipping ''FR'' 199 = 25 \<and> compute_shipping ''FR'' 200 = 0
   \<and> compute_shipping ''TH'' 500 = 0 \<and> compute_shipping ''JP'' 4000 = 0
   \<and> compute_shipping ''US'' 100 = 8 \<and> compute_shipping ''US'' 300 = 0"
  using compute_shipping_table [where c = "''FR''" and s = 199]
    compute_shipping_table [where c = "''FR''" and s = 200]
    compute_shipping_table [where s = 500]
    compute_shipping_table [where s = 4000]
    compute_shipping_table [where s = 100]
    compute_shipping_table [where s = 300]
  by simp

subsection \<open>Membership discount\<close>

text \<open>
  Claim C4. For every membership string and subtotal the membership discount is 3 percent
  of the subtotal for gold, 5 percent of the subtotal for platinum, and for every other
  membership 20 when the subtotal is strictly above 3000 and 0 otherwise.
\<close>

theorem compute_membership_discount_table:
  "compute_membership_discount ''gold'' s = s * 3 / 100
   \<and> compute_membership_discount ''platinum'' s = s * 5 / 100
   \<and> (m \<notin> {''gold'', ''platinum''} \<longrightarrow>
        compute_membership_discount m s = (if s > 3000 then 20 else 0))"
  by (simp add: compute_membership_discount_def)

theorem compute_membership_discount_table_witness:
  "''regular'' \<notin> {''gold'', ''platinum''}
   \<and> compute_membership_discount ''regular'' 3000 = 0
   \<and> compute_membership_discount ''regular'' 3001 = 20"
  using compute_membership_discount_table [where m = "''regular''" and s = 3000]
    compute_membership_discount_table [where m = "''regular''" and s = 3001]
  by simp

subsection \<open>Tax\<close>

text \<open>
  Claim C5. For every country, subtotal and discount the tax is the base, subtotal minus
  discount, times the rate of the country: 0.07 for TH, 0.10 for JP, 0.08 for US and
  0.05 for every other country. The base is not special-cased: when the discount exceeds
  the subtotal the tax is negative.
\<close>

theorem compute_tax_rate:
  "compute_tax c s d =
     (s - d) * (if c = ''TH'' then 0.07 else if c = ''JP'' then 0.10
                else if c = ''US'' then 0.08 else 0.05)
   \<and> (s < d \<longrightarrow> compute_tax c s d < 0)"
  by (simp add: compute_tax_def Let_def mult_neg_pos)

theorem compute_tax_rate_witness:
  "(100::real) < 150 \<and> compute_tax ''TH'' 100 150 = - 3.5 \<and> compute_tax ''TH'' 100 150 < 0"
  using compute_tax_rate [where c = "''TH''" and s = 100 and d = 150]
  by simp

subsection \<open>Coupon\<close>

text \<open>
  Claim C6. For every subtotal: an absent coupon and a coupon made of whitespace only
  give discount 0 and leave the warnings as they are; a code of the coupon-rate table
  with whitespace around it gives the same result as the trimmed code alone, the subtotal
  times the rate of the table, and leaves the warnings as they are; a coupon whose
  trimmed form is not empty and not in the table gives discount 0 and appends the one
  warning \<open>Unknown coupon\<close>.
\<close>

theorem apply_coupon_cases:
  "apply_coupon svc None s ws = (0, ws)
   \<and> ((\<forall>x\<in>set c. is_space x) \<longrightarrow> apply_coupon svc (Some c) s ws = (0, ws))
   \<and> ((\<forall>x\<in>set l. is_space x) \<and> (\<forall>x\<in>set r. is_space x) \<and> code \<noteq> [] \<and> strip code = code
        \<and> coupon_rate svc code = Some rate \<longrightarrow>
        apply_coupon svc (Some (l @ code @ r)) s ws = (s * rate, ws)
        \<and> apply_coupon svc (Some code) s ws = (s * rate, ws))
   \<and> (strip c \<noteq> [] \<and> coupon_rate svc (strip c) = None \<longrightarrow>
        apply_coupon svc (Some c) s ws = (0, ws @ [''Unknown coupon'']))"
proof (intro conjI impI)
  show "apply_coupon svc None s ws = (0, ws)" by (simp add: apply_coupon_def)
next
  assume "\<forall>x\<in>set c. is_space x"
  then show "apply_coupon svc (Some c) s ws = (0, ws)"
    by (simp add: apply_coupon_def strip_Nil_iff)
next
  assume a: "(\<forall>x\<in>set l. is_space x) \<and> (\<forall>x\<in>set r. is_space x) \<and> code \<noteq> [] \<and> strip code = code
        \<and> coupon_rate svc code = Some rate"
  then have "strip (l @ code @ r) = code"
    by (intro strip_surrounded strip_fixed_hd strip_fixed_last) simp_all
  with a show "apply_coupon svc (Some (l @ code @ r)) s ws = (s * rate, ws)"
    by (simp add: apply_coupon_def)
  from a show "apply_coupon svc (Some code) s ws = (s * rate, ws)"
    by (simp add: apply_coupon_def)
next
  assume "strip c \<noteq> [] \<and> coupon_rate svc (strip c) = None"
  then show "apply_coupon svc (Some c) s ws = (0, ws @ [''Unknown coupon''])"
    by (simp add: apply_coupon_def)
qed

theorem apply_coupon_cases_witness:
  "list_all is_space ''   ''
   \<and> apply_coupon InvoiceService_init (Some ''   '') 1000 [] = (0, [])
   \<and> list_all is_space '' '' \<and> ''VIP20'' \<noteq> [] \<and> strip ''VIP20'' = ''VIP20''
   \<and> coupon_rate InvoiceService_init ''VIP20'' = Some 0.20
   \<and> apply_coupon InvoiceService_init (Some '' VIP20 '') 1000 [] = (200, [])
   \<and> apply_coupon InvoiceService_init (Some ''VIP20'') 1000 [] = (200, [])
   \<and> strip '' BOGUS'' \<noteq> [] \<and> coupon_rate InvoiceService_init (strip '' BOGUS'') = None
   \<and> apply_coupon InvoiceService_init (Some '' BOGUS'') 1000 [] = (0, [''Unknown coupon''])"
  using apply_coupon_cases [where svc = InvoiceService_init and c = "''   ''" and s = 1000 and ws = "[]"]
    apply_coupon_cases [where svc = InvoiceService_init and l = "'' ''" and r = "'' ''" and code = "''VIP20''"
      and rate = "0.20" and s = 1000 and ws = "[]"]
    apply_coupon_cases [where svc = InvoiceService_init and c = "'' BOGUS''" and s = 1000 and ws = "[]"]
  by (simp add: is_space_def strip_def InvoiceService_init_def list_all_iff)

section \<open>Validation failures\<close>

text \<open>
  Claim C2. For every invoice \<^verbatim>\<open>compute_total\<close> raises exactly when the list of
  validation problems is not empty, and the message of the error is that list joined by
  \<open>; \<close>; the result is then the error alone, without total or warnings. The list holds
  every problem, in check order: invoice id, customer id, items not empty, then for each
  item in sequence order sku, quantity, price and category. An absent invoice has the
  single problem \<open>Invoice is missing\<close>.
\<close>

theorem compute_total_raises:
  "(isl (compute_total svc invc) \<longleftrightarrow> validate invc \<noteq> [])
   \<and> (validate invc \<noteq> [] \<longrightarrow>
        compute_total svc invc = Inl (ValueError (join ''; '' (validate invc))))
   \<and> validate None = [''Invoice is missing'']
   \<and> validate (Some i) = spec_problems i"
proof -
  have "isl (compute_total svc invc) \<longleftrightarrow> validate invc \<noteq> []"
  proof (cases invc)
    case None
    then show ?thesis by (simp add: compute_total_def validate_def)
  next
    case (Some j)
    then show ?thesis
      by (cases "validate (Some j) = []") (simp_all add: compute_total_valid compute_total_invalid)
  qed
  then show ?thesis
    by (simp add: compute_total_invalid validate_Some) (simp add: validate_def)
qed

theorem compute_total_raises_witness:
  "validate (Some \<lparr>invoice_id = '''', customer_id = ''C7'', country = ''TH'',
       membership = ''gold'', coupon = None,
       items = [\<lparr>sku = ''A'', category = ''toy'', unit_price = - 1, qty = 0, fragile = False\<rparr>,
                \<lparr>sku = ''B'', category = ''book'', unit_price = 3, qty = - 2, fragile = True\<rparr>]\<rparr>)
     \<noteq> []
   \<and> compute_total InvoiceService_init
       (Some \<lparr>invoice_id = '''', customer_id = ''C7'', country = ''TH'',
       membership = ''gold'', coupon = None,
       items = [\<lparr>sku = ''A'', category = ''toy'', unit_price = - 1, qty = 0, fragile = False\<rparr>,
                \<lparr>sku = ''B'', category = ''book'', unit_price = 3, qty = - 2, fragile = True\<rparr>]\<rparr>)
     = Inl (ValueError
         ''Missing invoice_id; Invalid qty for A; Invalid price for A; Unknown category for A; Invalid qty for B'')"
  using compute_total_raises [where svc = InvoiceService_init and invc =
       "Some \<lparr>invoice_id = '''', customer_id = ''C7'', country = ''TH'',
       membership = ''gold'', coupon = None,
       items = [\<lparr>sku = ''A'', category = ''toy'', unit_price = - 1, qty = 0, fragile = False\<rparr>,
                \<lparr>sku = ''B'', category = ''book'', unit_price = 3, qty = - 2, fragile = True\<rparr>]\<rparr>"]
  by (simp add: validate_def Let_def)

section \<open>The total\<close>





subsection \<open>Warnings\<close>



subsection \<open>Determinism\<close>



subsection \<open>Monotonicity\<close>




end
